theory Spec2Isabelle
  imports Main "HOL-Library.AList"
begin

section \<open>CrystalShards API client (docs/api/examples/python\_client.py)\<close>

text \<open>
  A shallow embedding of the class \<open>CrystalShardsClient\<close>. Python strings are modelled by
  their UTF-8 bytes (\<open>string\<close>), exceptions are values of a sum type, and the mutable client
  object is passed through every operation and returned. The \<open>requests\<close> session, the JSON
  decoder behind \<open>response.json()\<close> and Python's \<open>repr\<close> of containers are not part of the
  file under study: they are the fields of a record \<open>lib\<close> that every operation takes as
  its first argument, so every theorem below holds for any behaviour of the network and of
  the decoder.
\<close>

subsection \<open>Python values\<close>

text \<open>
  The values that the JSON decoder can produce and that callers pass as keyword options.
  \<open>PyNone\<close> is Python's \<open>None\<close> (the decoded \<open>null\<close>). A dictionary is kept as its items in
  insertion order; its keys are distinct. Floating point numbers are left out.
\<close>

datatype pyval =
    PyNone
  | PyBool bool
  | PyInt int
  | PyStr string
  | PyList "pyval list"
  | PyDict "(string \<times> pyval) list"

text \<open>Truth value testing, as used by \<open>or\<close> and \<open>if\<close>.\<close>

fun truthy :: "pyval \<Rightarrow> bool" where
  "truthy PyNone = False"
| "truthy (PyBool b) = b"
| "truthy (PyInt i) = (i \<noteq> 0)"
| "truthy (PyStr s) = (s \<noteq> [])"
| "truthy (PyList xs) = (xs \<noteq> [])"
| "truthy (PyDict kvs) = (kvs \<noteq> [])"

text \<open>\<open>a or b\<close>: the first operand when it is true, else the second.\<close>

definition py_or :: "pyval \<Rightarrow> pyval \<Rightarrow> pyval" where
  "py_or a b = (if truthy a then a else b)"

text \<open>\<open>d.get(k)\<close>: the value stored under \<open>k\<close>, or \<open>None\<close>.\<close>

definition dict_get :: "(string \<times> pyval) list \<Rightarrow> string \<Rightarrow> pyval" where
  "dict_get d k = (case map_of d k of Some v \<Rightarrow> v | None \<Rightarrow> PyNone)"

text \<open>\<open>type(v).__name__\<close>, as it appears in the message of an \<open>AttributeError\<close>.\<close>

fun type_name :: "pyval \<Rightarrow> string" where
  "type_name PyNone = ''NoneType''"
| "type_name (PyBool b) = ''bool''"
| "type_name (PyInt i) = ''int''"
| "type_name (PyStr s) = ''str''"
| "type_name (PyList xs) = ''list''"
| "type_name (PyDict kvs) = ''dict''"

text \<open>\<open>str(n)\<close> for an integer: its decimal digits, with a minus sign when negative.\<close>

fun str_nat :: "nat \<Rightarrow> string" where
  "str_nat n =
     (if n < 10 then [''0123456789'' ! n]
      else str_nat (n div 10) @ [''0123456789'' ! (n mod 10)])"

declare str_nat.simps [simp del]

definition str_int :: "int \<Rightarrow> string" where
  "str_int i = (if i < 0 then CHR ''-'' # str_nat (nat (- i)) else str_nat (nat i))"

text \<open>
  \<open>str(v)\<close>, which is what an f-string and \<open>urlencode\<close> apply to a value. A string is
  itself; a list or a dictionary is rendered by \<open>repr\<close>, which is taken as a parameter.
\<close>

fun py_str :: "(pyval \<Rightarrow> string) \<Rightarrow> pyval \<Rightarrow> string" where
  "py_str rp PyNone = ''None''"
| "py_str rp (PyBool b) = (if b then ''True'' else ''False'')"
| "py_str rp (PyInt i) = str_int i"
| "py_str rp (PyStr s) = s"
| "py_str rp (PyList xs) = rp (PyList xs)"
| "py_str rp (PyDict kvs) = rp (PyDict kvs)"

text \<open>\<open>sub in s\<close> on strings: \<open>sub\<close> occurs in \<open>s\<close> as a contiguous substring.\<close>

primrec starts_with :: "string \<Rightarrow> string \<Rightarrow> bool" where
  "starts_with [] s = True"
| "starts_with (c # cs) s = (case s of [] \<Rightarrow> False | d # ds \<Rightarrow> c = d \<and> starts_with cs ds)"

primrec contains :: "string \<Rightarrow> string \<Rightarrow> bool" where
  "contains sub [] = (sub = [])"
| "contains sub (c # cs) = (starts_with sub (c # cs) \<or> contains sub cs)"

text \<open>\<open>s.rstrip('/')\<close>: every trailing slash is removed.\<close>

definition rstrip_slash :: "string \<Rightarrow> string" where
  "rstrip_slash s = rev (dropWhile (\<lambda>c. c = CHR ''/'') (rev s))"

subsection \<open>urllib.parse: quote\_plus and urlencode\<close>

text \<open>
  \<open>quote_plus\<close> keeps the unreserved bytes, writes a space as \<open>+\<close> and every other byte as
  \<open>%XX\<close> with upper-case hexadecimal digits.
\<close>

definition always_safe :: "char \<Rightarrow> bool" where
  "always_safe c =
     (c \<in> set ''ABCDEFGHIJKLMNOPQRSTUVWXYZabcdefghijklmnopqrstuvwxyz0123456789_.-~'')"

definition quote_byte :: "char \<Rightarrow> string" where
  "quote_byte c =
     (if c = CHR '' '' then ''+''
      else if always_safe c then [c]
      else [CHR ''%'', ''0123456789ABCDEF'' ! (of_char c div 16),
            ''0123456789ABCDEF'' ! (of_char c mod 16)])"

definition quote_plus :: "string \<Rightarrow> string" where
  "quote_plus s = concat (map quote_byte s)"

fun join_amp :: "string list \<Rightarrow> string" where
  "join_amp [] = []"
| "join_amp [x] = x"
| "join_amp (x # y # ys) = x @ ''&'' @ join_amp (y # ys)"

text \<open>\<open>urlencode(params)\<close> for a dictionary: \<open>quote_plus(k)=quote_plus(str(v))\<close> joined by \<open>&\<close>.\<close>

definition urlencode :: "(pyval \<Rightarrow> string) \<Rightarrow> (string \<times> pyval) list \<Rightarrow> string" where
  "urlencode rp params =
     join_amp (map (\<lambda>(k, v). quote_plus k @ ''='' @ quote_plus (py_str rp v)) params)"

subsection \<open>The requests library\<close>

text \<open>
  A session holds its default headers and a private state of type \<open>'s\<close> (cookie jar,
  connection pool). Header names are compared as written; the library's own default
  entries are spelled as the client spells them.
\<close>

record 's session =
  headers :: "(string \<times> string) list"
  internals :: "'s"

text \<open>What one call of \<open>session.request(method, url, **kwargs)\<close> is given.\<close>

record http_call =
  call_method :: string
  call_url :: string
  call_json :: "pyval option"

record response =
  status_code :: int
  reason :: string
  resp_url :: string
  text_body :: string

text \<open>
  \<open>session.request\<close> either raises a \<open>RequestException\<close> (no response was obtained;
  the string is \<open>str(e)\<close>) or returns a response.
\<close>

datatype sent_result = RequestException string | Response response

text \<open>
  The library as the client sees it: a fresh \<open>Session()\<close>, the call through a session
  (which may change the session's private state, never its headers), the decoder behind
  \<open>response.json()\<close> (\<open>Inl msg\<close>: it raises a JSON decode error with that message) and
  \<open>repr\<close>.
\<close>

record 's lib =
  new_session :: "'s session"
  session_request :: "'s session \<Rightarrow> http_call \<Rightarrow> sent_result \<times> 's"
  response_json :: "string \<Rightarrow> string + pyval"
  py_repr :: "pyval \<Rightarrow> string"

text \<open>
  \<open>response.raise_for_status()\<close>: \<open>Some msg\<close> when it raises \<open>HTTPError(msg)\<close>, which it
  does for the status codes 400 to 599 only.
\<close>

definition raise_for_status :: "response \<Rightarrow> string option" where
  "raise_for_status r =
     (if 400 \<le> status_code r \<and> status_code r < 500 then
        Some (str_int (status_code r) @ '' Client Error: '' @ reason r @ '' for url: '' @ resp_url r)
      else if 500 \<le> status_code r \<and> status_code r < 600 then
        Some (str_int (status_code r) @ '' Server Error: '' @ reason r @ '' for url: '' @ resp_url r)
      else None)"

subsection \<open>The client\<close>

record 's client =
  base_url :: string
  api_key :: "string option"
  session :: "'s session"

text \<open>
  The exceptions that leave the client: \<open>Exception(msg)\<close>, raised by the client itself,
  and the \<open>AttributeError\<close> of a \<open>.get\<close> on a value that is not a dictionary.
\<close>

datatype error = Exception string | AttributeError string

text \<open>\<open>str(e)\<close> of an exception raised with a single message argument.\<close>

fun error_str :: "error \<Rightarrow> string" where
  "error_str (Exception m) = m"
| "error_str (AttributeError m) = m"

text \<open>
  What an operation leaves behind: the value returned or the exception raised, the client
  object afterwards, and the calls made through the session, in order.
\<close>

record 's outcome =
  result :: "error + pyval"
  client_after :: "'s client"
  sent :: "http_call list"

text \<open>
  \<open>__init__(base_url="https://api.crystalshards.org", api_key=None)\<close>. An argument that is
  \<open>None\<close> here is one the caller did not pass.
\<close>

definition init :: "'s lib \<Rightarrow> string option \<Rightarrow> string option \<Rightarrow> 's client" where
  "init lib base_url_arg api_key_arg =
     (let b = (case base_url_arg of None \<Rightarrow> ''https://api.crystalshards.org'' | Some u \<Rightarrow> u);
          s = new_session lib;
          h = AList.update ''User-Agent'' ''CrystalShardsClient/1.0.0 (Python)''
                (AList.update ''Content-Type'' ''application/json'' (headers s));
          h' = (case api_key_arg of
                  None \<Rightarrow> h
                | Some k \<Rightarrow> if k \<noteq> [] then AList.update ''Authorization'' (''Bearer '' @ k) h else h)
      in \<lparr>base_url = rstrip_slash b, api_key = api_key_arg, session = s\<lparr>headers := h'\<rparr>\<rparr>)"

text \<open>
  \<open>_request(method, endpoint, **kwargs)\<close>. The only keyword argument any caller passes is
  \<open>json=payload\<close>. On a status that \<open>raise_for_status\<close> rejects, the body is decoded inside a
  bare \<open>try/except\<close> (\<open>error_data\<close> stays \<open>{}\<close> when that fails) and \<open>.get\<close> is called on
  whatever was decoded; \<open>error_msg\<close> is the text that the f-string puts after the status
  code, \<open>e\<close> being \<open>str\<close> of the \<open>HTTPError\<close>. A body that cannot be decoded on the success path raises the
  library's JSON decode error, which is a \<open>RequestException\<close>.
\<close>

definition error_msg :: "(pyval \<Rightarrow> string) \<Rightarrow> (string \<times> pyval) list \<Rightarrow> string \<Rightarrow> string" where
  "error_msg rp d e =
     py_str rp (py_or (py_or (dict_get d ''error'') (dict_get d ''message'')) (PyStr e))"

definition api_error :: "'s lib \<Rightarrow> response \<Rightarrow> string \<Rightarrow> error" where
  "api_error lib r e =
     (let error_data = (case response_json lib (text_body r) of
                          Inr v \<Rightarrow> v
                        | Inl _ \<Rightarrow> PyDict [])
      in case error_data of
           PyDict d \<Rightarrow>
             Exception (''API Error '' @ str_int (status_code r) @ '': ''
                          @ error_msg (py_repr lib) d e)
         | v \<Rightarrow> AttributeError ([CHR 0x27] @ type_name v @ [CHR 0x27]
                                 @ '' object has no attribute '' @ [CHR 0x27] @ ''get'' @ [CHR 0x27]))"

definition private_request ::
  "'s lib \<Rightarrow> 's client \<Rightarrow> string \<Rightarrow> string \<Rightarrow> pyval option \<Rightarrow> 's outcome" where
  "private_request lib c meth endpoint payload =
     (let url = base_url c @ endpoint;
          call = \<lparr>call_method = meth, call_url = url, call_json = payload\<rparr>;
          answer = session_request lib (session c) call;
          c' = c\<lparr>session := (session c)\<lparr>internals := snd answer\<rparr>\<rparr>;
          res = (case fst answer of
                   RequestException msg \<Rightarrow> Inl (Exception (''Request failed: '' @ msg))
                 | Response r \<Rightarrow>
                     (case raise_for_status r of
                        None \<Rightarrow>
                          (case response_json lib (text_body r) of
                             Inr v \<Rightarrow> Inr v
                           | Inl msg \<Rightarrow> Inl (Exception (''Request failed: '' @ msg)))
                      | Some e \<Rightarrow> Inl (api_error lib r e)))
      in \<lparr>result = res, client_after = c', sent = [call]\<rparr>)"

text \<open>
  \<open>search_shards(query, **options)\<close>: \<open>params\<close> starts as \<open>{'q': query}\<close> and is updated
  with the options that are not \<open>None\<close>.
\<close>

definition search_params :: "string \<Rightarrow> (string \<times> pyval) list \<Rightarrow> (string \<times> pyval) list" where
  "search_params query options =
     foldl (\<lambda>params (k, v). AList.update k v params) [(''q'', PyStr query)]
       (filter (\<lambda>(k, v). v \<noteq> PyNone) options)"

definition search_shards ::
  "'s lib \<Rightarrow> 's client \<Rightarrow> string \<Rightarrow> (string \<times> pyval) list \<Rightarrow> 's outcome" where
  "search_shards lib c query options =
     private_request lib c ''GET''
       (''/api/v1/search?'' @ urlencode (py_repr lib) (search_params query options)) None"

text \<open>
  \<open>get_shard(name)\<close>: any exception of \<open>_request\<close> whose text contains \<open>404\<close> becomes the
  return value \<open>None\<close>; every other one is raised again.
\<close>

definition get_shard :: "'s lib \<Rightarrow> 's client \<Rightarrow> string \<Rightarrow> 's outcome" where
  "get_shard lib c name =
     (let out = private_request lib c ''GET'' (''/api/v1/shards/'' @ name) None
      in case result out of
           Inr v \<Rightarrow> out
         | Inl e \<Rightarrow> if contains ''404'' (error_str e) then out\<lparr>result := Inr PyNone\<rparr> else out)"

text \<open>\<open>submit_shard(github_url)\<close>: \<open>not self.api_key\<close> holds for \<open>None\<close> and for the empty string.\<close>

definition submit_shard :: "'s lib \<Rightarrow> 's client \<Rightarrow> string \<Rightarrow> 's outcome" where
  "submit_shard lib c github_url =
     (if (case api_key c of None \<Rightarrow> True | Some k \<Rightarrow> k = []) then
        \<lparr>result = Inl (Exception ''API key required for shard submission''),
         client_after = c, sent = []\<rparr>
      else private_request lib c ''POST'' ''/api/v1/shards''
             (Some (PyDict [(''github_url'', PyStr github_url)])))"

text \<open>
  The operations with defaulted parameters. An argument \<open>None\<close> is one the caller left
  unset, so the default of the signature is used.
\<close>

definition get_suggestions :: "'s lib \<Rightarrow> 's client \<Rightarrow> string \<Rightarrow> int option \<Rightarrow> 's outcome" where
  "get_suggestions lib c query limit_arg =
     (let limit = (case limit_arg of None \<Rightarrow> 10 | Some n \<Rightarrow> n);
          params = [(''q'', PyStr query), (''limit'', PyInt limit)]
      in private_request lib c ''GET''
           (''/api/v1/search/suggestions?'' @ urlencode (py_repr lib) params) None)"

definition get_trending_searches :: "'s lib \<Rightarrow> 's client \<Rightarrow> int option \<Rightarrow> 's outcome" where
  "get_trending_searches lib c limit_arg =
     (let limit = (case limit_arg of None \<Rightarrow> 20 | Some n \<Rightarrow> n);
          params = [(''limit'', PyInt limit)]
      in private_request lib c ''GET''
           (''/api/v1/search/trending?'' @ urlencode (py_repr lib) params) None)"

definition get_popular_searches :: "'s lib \<Rightarrow> 's client \<Rightarrow> int option \<Rightarrow> 's outcome" where
  "get_popular_searches lib c limit_arg =
     (let limit = (case limit_arg of None \<Rightarrow> 20 | Some n \<Rightarrow> n);
          params = [(''limit'', PyInt limit)]
      in private_request lib c ''GET''
           (''/api/v1/search/popular?'' @ urlencode (py_repr lib) params) None)"

definition get_search_analytics :: "'s lib \<Rightarrow> 's client \<Rightarrow> int option \<Rightarrow> 's outcome" where
  "get_search_analytics lib c days_arg =
     (let days = (case days_arg of None \<Rightarrow> 7 | Some n \<Rightarrow> n);
          params = [(''days'', PyInt days)]
      in private_request lib c ''GET''
           (''/api/v1/search/analytics?'' @ urlencode (py_repr lib) params) None)"

definition get_search_filters :: "'s lib \<Rightarrow> 's client \<Rightarrow> 's outcome" where
  "get_search_filters lib c = private_request lib c ''GET'' ''/api/v1/search/filters'' None"

definition list_shards :: "'s lib \<Rightarrow> 's client \<Rightarrow> int option \<Rightarrow> int option \<Rightarrow> 's outcome" where
  "list_shards lib c page_arg per_page_arg =
     (let page = (case page_arg of None \<Rightarrow> 1 | Some n \<Rightarrow> n);
          per_page = (case per_page_arg of None \<Rightarrow> 20 | Some n \<Rightarrow> n);
          params = [(''page'', PyInt page), (''per_page'', PyInt per_page)]
      in private_request lib c ''GET''
           (''/api/v1/shards?'' @ urlencode (py_repr lib) params) None)"

definition get_api_info :: "'s lib \<Rightarrow> 's client \<Rightarrow> 's outcome" where
  "get_api_info lib c = private_request lib c ''GET'' ''/api/v1'' None"

definition health_check :: "'s lib \<Rightarrow> 's client \<Rightarrow> 's outcome" where
  "health_check lib c = private_request lib c ''GET'' ''/health'' None"

text \<open>One call of any public method of the client.\<close>

datatype operation =
    SearchShards string "(string \<times> pyval) list"
  | GetShard string
  | SubmitShard string
  | GetSuggestions string "int option"
  | GetTrendingSearches "int option"
  | GetPopularSearches "int option"
  | GetSearchAnalytics "int option"
  | GetSearchFilters
  | ListShards "int option" "int option"
  | GetApiInfo
  | HealthCheck

fun invoke :: "'s lib \<Rightarrow> 's client \<Rightarrow> operation \<Rightarrow> 's outcome" where
  "invoke lib c (SearchShards q options) = search_shards lib c q options"
| "invoke lib c (GetShard name) = get_shard lib c name"
| "invoke lib c (SubmitShard github_url) = submit_shard lib c github_url"
| "invoke lib c (GetSuggestions q limit) = get_suggestions lib c q limit"
| "invoke lib c (GetTrendingSearches limit) = get_trending_searches lib c limit"
| "invoke lib c (GetPopularSearches limit) = get_popular_searches lib c limit"
| "invoke lib c (GetSearchAnalytics days) = get_search_analytics lib c days"
| "invoke lib c GetSearchFilters = get_search_filters lib c"
| "invoke lib c (ListShards page per_page) = list_shards lib c page per_page"
| "invoke lib c GetApiInfo = get_api_info lib c"
| "invoke lib c HealthCheck = health_check lib c"

subsection \<open>A mock library for concrete runs\<close>

text \<open>
  A library whose session answers every call with the same fixed result and whose decoder
  is a finite table from body texts to decoded values; any other text fails to decode.
  A fresh session carries the headers \<open>requests\<close> sets by default.
\<close>

definition mock_lib :: "sent_result \<Rightarrow> (string \<times> pyval) list \<Rightarrow> unit lib" where
  "mock_lib answer table =
     \<lparr>new_session = \<lparr>headers = [(''User-Agent'', ''python-requests/2.31.0''),
                                 (''Accept-Encoding'', ''gzip, deflate''),
                                 (''Accept'', ''*/*''),
                                 (''Connection'', ''keep-alive'')],
                      internals = ()\<rparr>,
      session_request = (\<lambda>s call. (answer, ())),
      response_json = (\<lambda>body. case map_of table body of
                                Some v \<Rightarrow> Inr v
                              | None \<Rightarrow> Inl ''Expecting value: line 1 column 1 (char 0)''),
      py_repr = (\<lambda>v. ''<repr>'')\<rparr>"

text \<open>Body texts and their decoded values, and a response built from its four fields.\<close>

definition body_invalid_token :: string where
  \<open>body_invalid_token = ''{"error": "invalid token"}''\<close>

definition body_empty_error :: string where
  \<open>body_empty_error = ''{"error": "", "message": "try later"}''\<close>

definition body_backend_404 :: string where
  \<open>body_backend_404 = ''{"error": "backend returned 404"}''\<close>

definition body_ticket :: string where
  \<open>body_ticket = ''{"error": "see incident 4041"}''\<close>

definition body_health :: string where
  \<open>body_health = ''{"status":"ok","timestamp":"2024-01-01T00:00:00Z"}''\<close>

definition json_table :: "(string \<times> pyval) list" where
  "json_table =
     [(body_invalid_token, PyDict [(''error'', PyStr ''invalid token'')]),
      (body_empty_error, PyDict [(''error'', PyStr []), (''message'', PyStr ''try later'')]),
      (body_backend_404, PyDict [(''error'', PyStr ''backend returned 404'')]),
      (body_ticket, PyDict [(''error'', PyStr ''see incident 4041'')]),
      (body_health,
         PyDict [(''status'', PyStr ''ok''), (''timestamp'', PyStr ''2024-01-01T00:00:00Z'')]),
      (''[]'', PyList []),
      (''null'', PyNone)]"

definition reply :: "int \<Rightarrow> string \<Rightarrow> string \<Rightarrow> string \<Rightarrow> sent_result" where
  "reply code why url body =
     Response \<lparr>status_code = code, reason = why, resp_url = url, text_body = body\<rparr>"

lemmas fixture_defs = mock_lib_def json_table_def reply_def body_invalid_token_def
  body_empty_error_def body_backend_404_def body_ticket_def body_health_def

lemmas operation_defs = search_shards_def submit_shard_def get_suggestions_def
  get_trending_searches_def get_popular_searches_def get_search_analytics_def
  get_search_filters_def list_shards_def get_api_info_def health_check_def

section \<open>Auxiliary facts\<close>

subsection \<open>Strings\<close>

lemma starts_with_append: "starts_with sub (sub @ b)"
  by (induction sub) simp_all

lemma contains_append: "contains sub (a @ sub @ b)"
proof (induction a)
  case Nil
  show ?case by (cases "sub @ b") (use starts_with_append [of sub b] in auto)
next
  case (Cons x a)
  then show ?case by simp
qed

lemma contains_appendI: "contains sub s \<Longrightarrow> contains sub (a @ s)"
  by (induction a) simp_all

lemma str_int_404: "str_int 404 = ''404''"
  by code_simp

lemma str_int_values:
  "str_int 401 = ''401''" "str_int 500 = ''500''" "str_int 503 = ''503''" "str_int 200 = ''200''"
  "str_int 7 = ''7''" "str_int 1 = ''1''" "str_int 10 = ''10''" "str_int 20 = ''20''"
  by code_simp+



lemma rstrip_slash_no_trailing: "rstrip_slash u \<noteq> s @ ''/''"
proof
  assume "rstrip_slash u = s @ ''/''"
  then have "rev (rstrip_slash u) = CHR ''/'' # rev s" by simp
  then have eq: "dropWhile (\<lambda>c. c = CHR ''/'') (rev u) = CHR ''/'' # rev s"
    by (simp add: rstrip_slash_def)
  then have "dropWhile (\<lambda>c. c = CHR ''/'') (rev u) \<noteq> []" by simp
  from hd_dropWhile [OF this] eq show False by simp
qed

lemma default_url_stripped:
  "rstrip_slash ''https://api.crystalshards.org'' = ''https://api.crystalshards.org''"
  by (simp add: rstrip_slash_def)

subsection \<open>Construction\<close>

lemma init_fields:
  "base_url (init lib b k) =
     rstrip_slash (case b of None \<Rightarrow> ''https://api.crystalshards.org'' | Some u \<Rightarrow> u)"
  "api_key (init lib b k) = k"
  by (simp_all add: init_def Let_def)

lemma init_headers:
  "headers (session (init lib b k)) =
     (let h = AList.update ''User-Agent'' ''CrystalShardsClient/1.0.0 (Python)''
                (AList.update ''Content-Type'' ''application/json'' (headers (new_session lib)))
      in case k of
           None \<Rightarrow> h
         | Some key \<Rightarrow> if key \<noteq> [] then AList.update ''Authorization'' (''Bearer '' @ key) h else h)"
  by (simp add: init_def Let_def split: option.splits)

subsection \<open>One request\<close>

lemma private_request_result:
  "result (private_request lib c meth endpoint payload) =
     (case fst (session_request lib (session c)
                 \<lparr>call_method = meth, call_url = base_url c @ endpoint, call_json = payload\<rparr>) of
        RequestException msg \<Rightarrow> Inl (Exception (''Request failed: '' @ msg))
      | Response r \<Rightarrow>
          (case raise_for_status r of
             None \<Rightarrow>
               (case response_json lib (text_body r) of
                  Inr v \<Rightarrow> Inr v
                | Inl msg \<Rightarrow> Inl (Exception (''Request failed: '' @ msg)))
           | Some e \<Rightarrow> Inl (api_error lib r e)))"
  by (simp add: private_request_def Let_def)

lemma private_request_sent:
  "sent (private_request lib c meth endpoint payload) =
     [\<lparr>call_method = meth, call_url = base_url c @ endpoint, call_json = payload\<rparr>]"
  by (simp add: private_request_def Let_def)

lemma private_request_client:
  "base_url (client_after (private_request lib c meth endpoint payload)) = base_url c"
  "api_key (client_after (private_request lib c meth endpoint payload)) = api_key c"
  "headers (session (client_after (private_request lib c meth endpoint payload))) = headers (session c)"
  by (simp_all add: private_request_def Let_def)

lemma request_failed:
  "fst (session_request lib (session c)
         \<lparr>call_method = meth, call_url = base_url c @ endpoint, call_json = payload\<rparr>)
     = RequestException msg \<Longrightarrow>
   result (private_request lib c meth endpoint payload) = Inl (Exception (''Request failed: '' @ msg))"
  by (simp add: private_request_result)

lemma request_succeeded:
  "fst (session_request lib (session c)
         \<lparr>call_method = meth, call_url = base_url c @ endpoint, call_json = payload\<rparr>)
     = Response r \<Longrightarrow>
   raise_for_status r = None \<Longrightarrow> response_json lib (text_body r) = Inr v \<Longrightarrow>
   result (private_request lib c meth endpoint payload) = Inr v"
  by (simp add: private_request_result)

lemma raise_for_status_Some:
  "400 \<le> status_code r \<Longrightarrow> status_code r < 600 \<Longrightarrow>
   \<exists>rest. raise_for_status r = Some (str_int (status_code r) @ rest)"
  by (simp add: raise_for_status_def)

lemma raise_for_status_range:
  "raise_for_status r = Some e \<Longrightarrow> 400 \<le> status_code r \<and> status_code r < 600"
  by (auto simp: raise_for_status_def split: if_splits)

lemma raise_for_status_success:
  "200 \<le> status_code r \<Longrightarrow> status_code r < 300 \<Longrightarrow> raise_for_status r = None"
  by (simp add: raise_for_status_def)

lemma api_error_dict:
  "response_json lib (text_body r) = Inr (PyDict d) \<or>
     (d = [] \<and> (\<exists>msg. response_json lib (text_body r) = Inl msg)) \<Longrightarrow>
   api_error lib r e =
     Exception (''API Error '' @ str_int (status_code r) @ '': '' @ error_msg (py_repr lib) d e)"
  by (auto simp: api_error_def Let_def)

lemma error_msg_cases:
  "error_msg rp d e =
     (if truthy (dict_get d ''error'') then py_str rp (dict_get d ''error'')
      else if truthy (dict_get d ''message'') then py_str rp (dict_get d ''message'')
      else e)"
  by (simp add: error_msg_def py_or_def)

lemma api_error_resolved:
  assumes "fst (session_request lib (session c)
                 \<lparr>call_method = meth, call_url = base_url c @ endpoint, call_json = payload\<rparr>) = Response r"
    and "raise_for_status r = Some e"
    and "response_json lib (text_body r) = Inr (PyDict d) \<or>
         (d = [] \<and> (\<exists>msg. response_json lib (text_body r) = Inl msg))"
  shows "result (private_request lib c meth endpoint payload) =
           Inl (Exception (''API Error '' @ str_int (status_code r) @ '': '' @
             (if truthy (dict_get d ''error'') then py_str (py_repr lib) (dict_get d ''error'')
              else if truthy (dict_get d ''message'') then py_str (py_repr lib) (dict_get d ''message'')
              else e)))
         \<and> (\<exists>rest. e = str_int (status_code r) @ rest)"
proof -
  have "\<exists>rest. e = str_int (status_code r) @ rest"
    using raise_for_status_Some [of r] raise_for_status_range [OF assms(2)] assms(2) by auto
  moreover have "result (private_request lib c meth endpoint payload) = Inl (api_error lib r e)"
    using assms(1,2) by (simp add: private_request_result)
  ultimately show ?thesis
    using api_error_dict [OF assms(3), of e] by (simp add: error_msg_cases)
qed

subsection \<open>Looking a shard up\<close>

lemma get_shard_Inl:
  "result (private_request lib c ''GET'' (''/api/v1/shards/'' @ name) None) = Inl e \<Longrightarrow>
   result (get_shard lib c name) = (if contains ''404'' (error_str e) then Inr PyNone else Inl e)"
  by (simp add: get_shard_def Let_def)

lemma get_shard_Inr:
  "result (private_request lib c ''GET'' (''/api/v1/shards/'' @ name) None) = Inr v \<Longrightarrow>
   result (get_shard lib c name) = Inr v"
  by (simp add: get_shard_def Let_def)

lemma get_shard_on_api_error:
  assumes "fst (session_request lib (session c)
                 \<lparr>call_method = ''GET'', call_url = base_url c @ ''/api/v1/shards/'' @ name,
                  call_json = None\<rparr>) = Response r"
    and "raise_for_status r = Some e"
    and "response_json lib (text_body r) = Inr (PyDict d) \<or>
         (d = [] \<and> (\<exists>msg. response_json lib (text_body r) = Inl msg))"
  shows "result (get_shard lib c name) =
           (if contains ''404'' (''API Error '' @ str_int (status_code r) @ '': ''
                                   @ error_msg (py_repr lib) d e)
            then Inr PyNone
            else Inl (Exception (''API Error '' @ str_int (status_code r) @ '': ''
                                   @ error_msg (py_repr lib) d e)))"
proof -
  define m where "m = ''API Error '' @ str_int (status_code r) @ '': '' @ error_msg (py_repr lib) d e"
  have "result (private_request lib c ''GET'' (''/api/v1/shards/'' @ name) None)
          = Inl (api_error lib r e)"
    using assms(1,2) by (simp add: private_request_result)
  then have req: "result (private_request lib c ''GET'' (''/api/v1/shards/'' @ name) None)
                    = Inl (Exception m)"
    unfolding m_def using api_error_dict [OF assms(3), of e] by simp
  have "result (get_shard lib c name) = (if contains ''404'' m then Inr PyNone else Inl (Exception m))"
    using get_shard_Inl [OF req] by simp
  then show ?thesis
    unfolding m_def .
qed

subsection \<open>Every operation\<close>

lemma invoke_client:
  "base_url (client_after (invoke lib c op)) = base_url c"
  "api_key (client_after (invoke lib c op)) = api_key c"
  "headers (session (client_after (invoke lib c op))) = headers (session c)"
  by (cases op; simp add: operation_defs get_shard_def Let_def private_request_client
        split: sum.splits)+

subsection \<open>The parameters of a search\<close>




section \<open>Properties\<close>

subsection \<open>Authentication\<close>

text \<open>
  C1. \<open>submit_shard\<close>, the one operation that requires authentication, called on a client
  that has no API key, raises \<open>Exception("API key required for shard submission")\<close>
  itself: no call goes through the session, whatever the library would have answered, and
  the client is left as it was.
\<close>

theorem submit_shard_requires_key:
  "api_key c = None \<Longrightarrow>
   result (submit_shard lib c github_url) = Inl (Exception ''API key required for shard submission'')
   \<and> sent (submit_shard lib c github_url) = []
   \<and> client_after (submit_shard lib c github_url) = c"
  by (simp add: submit_shard_def)

theorem submit_shard_requires_key_witness:
  "api_key (init (mock_lib (RequestException ''down'') []) None None) = None
   \<and> result (submit_shard (mock_lib (RequestException ''down'') [])
        (init (mock_lib (RequestException ''down'') []) None None) ''https://github.com/user/repo'')
     = Inl (Exception ''API key required for shard submission'')
   \<and> sent (submit_shard (mock_lib (RequestException ''down'') [])
        (init (mock_lib (RequestException ''down'') []) None None) ''https://github.com/user/repo'')
     = []"
proof -
  have k: "api_key (init (mock_lib (RequestException ''down'') []) None None) = None"
    by (simp add: init_def Let_def)
  from submit_shard_requires_key [OF k] k show ?thesis by simp
qed

text \<open>
  C10. The empty string as API key counts as no key. The key is stored as given, yet the
  session headers are those of a client built without a key (the two default entries on
  top of the library's own, no \<open>Authorization\<close> entry added), and \<open>submit_shard\<close> raises
  its local error without any call through the session.
\<close>

theorem empty_key_unauthenticated:
  "api_key (init lib b (Some [])) = Some []
   \<and> headers (session (init lib b (Some []))) =
       AList.update ''User-Agent'' ''CrystalShardsClient/1.0.0 (Python)''
         (AList.update ''Content-Type'' ''application/json'' (headers (new_session lib)))
   \<and> headers (session (init lib b (Some []))) = headers (session (init lib b None))
   \<and> result (submit_shard lib (init lib b (Some [])) github_url)
       = Inl (Exception ''API key required for shard submission'')
   \<and> sent (submit_shard lib (init lib b (Some [])) github_url) = []"
  by (simp add: init_headers init_fields submit_shard_def)

theorem empty_key_unauthenticated_witness:
  "map_of (headers (session (init (mock_lib (reply 200 ''OK'' ''http://localhost:3000/health'' ''null'') json_table)
                              None (Some [])))) ''Authorization'' = None
   \<and> sent (submit_shard (mock_lib (reply 200 ''OK'' ''http://localhost:3000/health'' ''null'') json_table)
           (init (mock_lib (reply 200 ''OK'' ''http://localhost:3000/health'' ''null'') json_table)
                 None (Some []))
           ''https://github.com/user/repo'') = []"
  using empty_key_unauthenticated [of "mock_lib (reply 200 ''OK'' ''http://localhost:3000/health'' ''null'') json_table"
      None "''https://github.com/user/repo''"]
  by (simp add: mock_lib_def)

subsection \<open>Looking a shard up\<close>

text \<open>
  C2. The specification wants \<open>get_shard\<close> to return \<open>None\<close> for a 404 and to raise an
  error carrying the status code for every other unsuccessful status. The code does not
  do so at two inputs. A 500 whose body is \<open>{"error": "backend returned 404"}\<close>:
  \<open>get_shard\<close> returns \<open>None\<close>, and raises nothing. A 404 whose body is \<open>null\<close>:
  \<open>get_shard\<close> raises the \<open>AttributeError\<close> of \<open>None.get\<close>, and does not return \<open>None\<close>.
\<close>

theorem get_shard_status_mismatch:
  "result (get_shard
     (mock_lib (reply 500 ''Internal Server Error'' ''https://api.crystalshards.org/api/v1/shards/kemal''
                 body_backend_404) json_table)
     (init (mock_lib (reply 500 ''Internal Server Error'' ''https://api.crystalshards.org/api/v1/shards/kemal''
                 body_backend_404) json_table) None None)
     ''kemal'') = Inr PyNone
   \<and> result (get_shard
     (mock_lib (reply 404 ''Not Found'' ''https://api.crystalshards.org/api/v1/shards/missing''
                 ''null'') json_table)
     (init (mock_lib (reply 404 ''Not Found'' ''https://api.crystalshards.org/api/v1/shards/missing''
                 ''null'') json_table) None None)
     ''missing'')
     = Inl (AttributeError (CHR 0x27 # ''NoneType'' @ CHR 0x27 # '' object has no attribute ''
                              @ CHR 0x27 # ''get'' @ [CHR 0x27]))"
  by (simp add: get_shard_def private_request_def Let_def init_def raise_for_status_def
      api_error_def error_msg_def py_or_def dict_get_def fixture_defs str_int_values str_int_404)

text \<open>
  C9. \<open>get_shard\<close> recognises "not found" by the substring \<open>404\<close> of the error text, and
  by nothing else. Let the service answer with a status from 400 to 599 (\<open>e\<close> being the
  text of the \<open>HTTPError\<close>) and a body that does not decode or decodes to a JSON object
  \<open>d\<close>, so that \<open>_request\<close> raises \<open>API Error <status>: <message>\<close>. Then \<open>get_shard\<close>
  returns \<open>None\<close> when that text contains \<open>404\<close>, and raises the exception again when it
  does not. In particular a response with a status other than 404 whose \<open>error\<close> field is
  a string that contains \<open>404\<close> makes \<open>get_shard\<close> return \<open>None\<close>.
\<close>

theorem get_shard_substring_404:
  assumes "fst (session_request lib (session c)
                 \<lparr>call_method = ''GET'', call_url = base_url c @ ''/api/v1/shards/'' @ name,
                  call_json = None\<rparr>) = Response r"
    and "raise_for_status r = Some e"
    and "response_json lib (text_body r) = Inr (PyDict d) \<or>
         (d = [] \<and> (\<exists>msg. response_json lib (text_body r) = Inl msg))"
  shows "result (get_shard lib c name) =
           (if contains ''404'' (''API Error '' @ str_int (status_code r) @ '': ''
                                   @ error_msg (py_repr lib) d e)
            then Inr PyNone
            else Inl (Exception (''API Error '' @ str_int (status_code r) @ '': ''
                                   @ error_msg (py_repr lib) d e)))
         \<and> (status_code r \<noteq> 404 \<and> dict_get d ''error'' = PyStr m \<and> contains ''404'' m
              \<longrightarrow> result (get_shard lib c name) = Inr PyNone)"
proof (intro conjI impI)
  show decided: "result (get_shard lib c name) =
           (if contains ''404'' (''API Error '' @ str_int (status_code r) @ '': ''
                                   @ error_msg (py_repr lib) d e)
            then Inr PyNone
            else Inl (Exception (''API Error '' @ str_int (status_code r) @ '': ''
                                   @ error_msg (py_repr lib) d e)))"
    using assms by (rule get_shard_on_api_error)
  assume h: "status_code r \<noteq> 404 \<and> dict_get d ''error'' = PyStr m \<and> contains ''404'' m"
  then have "m \<noteq> []" by auto
  then have msg: "error_msg (py_repr lib) d e = m"
    using h by (simp add: error_msg_cases)
  have "contains ''404'' (''API Error '' @ str_int (status_code r) @ '': '' @ error_msg (py_repr lib) d e)"
    unfolding msg using h by (intro contains_appendI) simp
  with decided show "result (get_shard lib c name) = Inr PyNone"
    by presburger
qed

text \<open>
  Two runs. A 503 whose body is \<open>{"error": "see incident 4041"}\<close> gives \<open>None\<close>; a 401
  whose body is \<open>{"error": "invalid token"}\<close>, a text without \<open>404\<close>, is raised again.
\<close>

theorem get_shard_substring_404_witness:
  "result (get_shard
     (mock_lib (reply 503 ''Service Unavailable'' ''https://api.crystalshards.org/api/v1/shards/kemal''
                 body_ticket) json_table)
     (init (mock_lib (reply 503 ''Service Unavailable'' ''https://api.crystalshards.org/api/v1/shards/kemal''
                 body_ticket) json_table) None None)
     ''kemal'') = Inr PyNone
   \<and> result (get_shard
     (mock_lib (reply 401 ''Unauthorized'' ''https://api.crystalshards.org/api/v1/shards/kemal''
                 body_invalid_token) json_table)
     (init (mock_lib (reply 401 ''Unauthorized'' ''https://api.crystalshards.org/api/v1/shards/kemal''
                 body_invalid_token) json_table) None None)
     ''kemal'') = Inl (Exception ''API Error 401: invalid token'')"
proof -
  define r1 where "r1 = \<lparr>status_code = 503, reason = ''Service Unavailable'',
    resp_url = ''https://api.crystalshards.org/api/v1/shards/kemal'', text_body = body_ticket\<rparr>"
  define r2 where "r2 = \<lparr>status_code = 401, reason = ''Unauthorized'',
    resp_url = ''https://api.crystalshards.org/api/v1/shards/kemal'', text_body = body_invalid_token\<rparr>"
  define L1 where "L1 = mock_lib (Response r1) json_table"
  define L2 where "L2 = mock_lib (Response r2) json_table"
  have a1: "fst (session_request L1 (session (init L1 None None))
                 \<lparr>call_method = ''GET'', call_url = base_url (init L1 None None) @ ''/api/v1/shards/'' @ ''kemal'',
                  call_json = None\<rparr>) = Response r1"
    by (simp add: L1_def mock_lib_def)
  have a2: "fst (session_request L2 (session (init L2 None None))
                 \<lparr>call_method = ''GET'', call_url = base_url (init L2 None None) @ ''/api/v1/shards/'' @ ''kemal'',
                  call_json = None\<rparr>) = Response r2"
    by (simp add: L2_def mock_lib_def)
  have b1: "raise_for_status r1 = Some (''503 Server Error: Service Unavailable for url: https://api.crystalshards.org/api/v1/shards/kemal'')"
    by (simp add: raise_for_status_def r1_def str_int_values)
  have b2: "raise_for_status r2 = Some (''401 Client Error: Unauthorized for url: https://api.crystalshards.org/api/v1/shards/kemal'')"
    by (simp add: raise_for_status_def r2_def str_int_values)
  have c1: "response_json L1 (text_body r1) = Inr (PyDict [(''error'', PyStr ''see incident 4041'')]) \<or>
         ([(''error'', PyStr ''see incident 4041'')] = [] \<and> (\<exists>msg. response_json L1 (text_body r1) = Inl msg))"
    by (simp add: L1_def r1_def fixture_defs)
  have c2: "response_json L2 (text_body r2) = Inr (PyDict [(''error'', PyStr ''invalid token'')]) \<or>
         ([(''error'', PyStr ''invalid token'')] = [] \<and> (\<exists>msg. response_json L2 (text_body r2) = Inl msg))"
    by (simp add: L2_def r2_def fixture_defs)
  have g1: "status_code r1 \<noteq> 404
            \<and> dict_get [(''error'', PyStr ''see incident 4041'')] ''error'' = PyStr ''see incident 4041''
            \<and> contains ''404'' ''see incident 4041''"
    by (simp add: r1_def dict_get_def)
  have e2: "error_msg (py_repr L2) [(''error'', PyStr ''invalid token'')] e = ''invalid token''" for e
    by (simp add: error_msg_def py_or_def dict_get_def)
  have "result (get_shard L1 (init L1 None None) ''kemal'') = Inr PyNone"
    using get_shard_substring_404 [OF a1 b1 c1, of "''see incident 4041''"] g1 by blast
  moreover have "result (get_shard L2 (init L2 None None) ''kemal'')
                   = Inl (Exception ''API Error 401: invalid token'')"
    using get_shard_substring_404 [OF a2 b2 c2, of "[]"] by (simp add: r2_def e2 str_int_values)
  ultimately show ?thesis
    by (simp add: L1_def L2_def r1_def r2_def reply_def)
qed

subsection \<open>Errors of a request\<close>

text \<open>
  C4, as the code has it. When the response has a status from 400 to 599 and its body
  either does not decode or decodes to a JSON object \<open>d\<close>, \<open>_request\<close> raises \<open>Exception\<close>
  with the text \<open>API Error <status>: <message>\<close>, where the message is \<open>str\<close> of the
  \<open>error\<close> field when that field is true in Python's sense, else \<open>str\<close> of the \<open>message\<close>
  field when that one is true, else the text \<open>e\<close> of the \<open>HTTPError\<close>, which begins with
  the status code.
\<close>

theorem api_error_message:
  assumes "fst (session_request lib (session c)
                 \<lparr>call_method = meth, call_url = base_url c @ endpoint, call_json = payload\<rparr>) = Response r"
    and "raise_for_status r = Some e"
    and "response_json lib (text_body r) = Inr (PyDict d) \<or>
         (d = [] \<and> (\<exists>msg. response_json lib (text_body r) = Inl msg))"
  shows "result (private_request lib c meth endpoint payload) =
           Inl (Exception (''API Error '' @ str_int (status_code r) @ '': '' @
             (if truthy (dict_get d ''error'') then py_str (py_repr lib) (dict_get d ''error'')
              else if truthy (dict_get d ''message'') then py_str (py_repr lib) (dict_get d ''message'')
              else e)))
         \<and> (\<exists>rest. e = str_int (status_code r) @ rest)"
  using assms by (rule api_error_resolved)

text \<open>A 401 with the body \<open>{"error": "invalid token"}\<close> on a submission.\<close>

theorem api_error_message_witness:
  "result (private_request
     (mock_lib (reply 401 ''Unauthorized'' ''https://api.crystalshards.org/api/v1/shards''
                 body_invalid_token) json_table)
     (init (mock_lib (reply 401 ''Unauthorized'' ''https://api.crystalshards.org/api/v1/shards''
                 body_invalid_token) json_table) None (Some ''stale-token''))
     ''POST'' ''/api/v1/shards'' (Some (PyDict [(''github_url'', PyStr ''https://github.com/user/repo'')])))
   = Inl (Exception ''API Error 401: invalid token'')"
proof -
  define r where "r = \<lparr>status_code = 401, reason = ''Unauthorized'',
    resp_url = ''https://api.crystalshards.org/api/v1/shards'', text_body = body_invalid_token\<rparr>"
  define L where "L = mock_lib (Response r) json_table"
  define c where "c = init L None (Some ''stale-token'')"
  define p where "p = Some (PyDict [(''github_url'', PyStr ''https://github.com/user/repo'')])"
  have a: "fst (session_request L (session c)
                 \<lparr>call_method = ''POST'', call_url = base_url c @ ''/api/v1/shards'', call_json = p\<rparr>)
           = Response r"
    by (simp add: L_def mock_lib_def)
  have b: "raise_for_status r = Some (''401 Client Error: Unauthorized for url: https://api.crystalshards.org/api/v1/shards'')"
    by (simp add: raise_for_status_def r_def str_int_values)
  have d: "response_json L (text_body r) = Inr (PyDict [(''error'', PyStr ''invalid token'')]) \<or>
         ([(''error'', PyStr ''invalid token'')] = [] \<and> (\<exists>msg. response_json L (text_body r) = Inl msg))"
    by (simp add: L_def r_def fixture_defs)
  have "result (private_request L c ''POST'' ''/api/v1/shards'' p)
          = Inl (Exception ''API Error 401: invalid token'')"
    using api_error_message [OF a b d] by (simp add: r_def dict_get_def str_int_values)
  then show ?thesis
    by (simp add: L_def c_def r_def p_def reply_def)
qed

text \<open>
  Against C4 as the specification words it. A 500 with the body
  \<open>{"error": "", "message": "try later"}\<close>: the \<open>error\<close> field is present, yet the text
  raised is that of the \<open>message\<close> field. A 500 with the body \<open>[]\<close>: what leaves
  \<open>_request\<close> is the \<open>AttributeError\<close> of \<open>[].get\<close>, not an API error.
\<close>

theorem api_error_message_counterexample:
  "result (private_request
     (mock_lib (reply 500 ''Internal Server Error'' ''https://api.crystalshards.org/health''
                 body_empty_error) json_table)
     (init (mock_lib (reply 500 ''Internal Server Error'' ''https://api.crystalshards.org/health''
                 body_empty_error) json_table) None None)
     ''GET'' ''/health'' None)
   = Inl (Exception ''API Error 500: try later'')
   \<and> result (private_request
     (mock_lib (reply 500 ''Internal Server Error'' ''https://api.crystalshards.org/health''
                 ''[]'') json_table)
     (init (mock_lib (reply 500 ''Internal Server Error'' ''https://api.crystalshards.org/health''
                 ''[]'') json_table) None None)
     ''GET'' ''/health'' None)
   = Inl (AttributeError (CHR 0x27 # ''list'' @ CHR 0x27 # '' object has no attribute ''
                            @ CHR 0x27 # ''get'' @ [CHR 0x27]))"
  by (simp add: private_request_def Let_def init_def raise_for_status_def
      api_error_def error_msg_def py_or_def dict_get_def fixture_defs str_int_values)

text \<open>
  C5. When the session raises a \<open>RequestException\<close> with text \<open>msg\<close> (no response was
  obtained), \<open>_request\<close> fails: it raises \<open>Exception("Request failed: " + msg)\<close>. The
  exception holds that text and nothing else, and the text is never of the form
  \<open>API Error <status>: ...\<close> that a response with a status code produces.
\<close>

theorem transport_failure:
  "fst (session_request lib (session c)
         \<lparr>call_method = meth, call_url = base_url c @ endpoint, call_json = payload\<rparr>)
     = RequestException msg \<Longrightarrow>
   result (private_request lib c meth endpoint payload)
     = Inl (Exception (''Request failed: '' @ msg))
   \<and> (\<forall>s. result (private_request lib c meth endpoint payload)
             \<noteq> Inl (Exception (''API Error '' @ s)))
   \<and> sent (private_request lib c meth endpoint payload)
       = [\<lparr>call_method = meth, call_url = base_url c @ endpoint, call_json = payload\<rparr>]"
  by (simp add: private_request_result private_request_sent)

text \<open>A request for \<open>/health\<close> against \<open>http://localhost:9999\<close>, where nothing listens.\<close>

theorem transport_failure_witness:
  "result (private_request (mock_lib (RequestException ''Connection refused'') json_table)
            (init (mock_lib (RequestException ''Connection refused'') json_table)
                  (Some ''http://localhost:9999'') None)
            ''GET'' ''/health'' None)
     = Inl (Exception ''Request failed: Connection refused'')"
proof -
  define L where "L = mock_lib (RequestException ''Connection refused'') json_table"
  define c where "c = init L (Some ''http://localhost:9999'') None"
  have a: "fst (session_request L (session c)
                 \<lparr>call_method = ''GET'', call_url = base_url c @ ''/health'', call_json = None\<rparr>)
             = RequestException ''Connection refused''"
    by (simp add: L_def mock_lib_def)
  have "result (private_request L c ''GET'' ''/health'' None)
          = Inl (Exception ''Request failed: Connection refused'')"
    using transport_failure [OF a] by simp
  then show ?thesis
    by (simp add: L_def c_def)
qed

subsection \<open>Successful responses\<close>

text \<open>
  C6. Let a response have a status from 200 to 299 and a body that is the encoding of a
  value \<open>v\<close> which the decoder maps back to \<open>v\<close>. Then \<open>_request\<close> returns \<open>v\<close> itself, and
  so does every operation that reaches the session (all of them, \<open>submit_shard\<close> when the
  client has a non-empty key).
\<close>

theorem success_returns_decoded_body:
  assumes "200 \<le> status_code r" and "status_code r < 300"
    and "text_body r = encode v"
    and "response_json lib (encode v) = Inr v"
  shows "(fst (session_request lib (session c)
                \<lparr>call_method = meth, call_url = base_url c @ endpoint, call_json = payload\<rparr>)
            = Response r
          \<longrightarrow> result (private_request lib c meth endpoint payload) = Inr v)
         \<and> ((\<forall>call. fst (session_request lib (session c) call) = Response r)
              \<and> (\<forall>github_url. op = SubmitShard github_url
                    \<longrightarrow> (\<exists>k. api_key c = Some k \<and> k \<noteq> []))
          \<longrightarrow> result (invoke lib c op) = Inr v)"
proof (intro conjI impI)
  have ok: "raise_for_status r = None"
    using assms(1,2) by (rule raise_for_status_success)
  have dec: "response_json lib (text_body r) = Inr v"
    using assms(3,4) by simp
  {
    assume "fst (session_request lib (session c)
                \<lparr>call_method = meth, call_url = base_url c @ endpoint, call_json = payload\<rparr>)
            = Response r"
    then show "result (private_request lib c meth endpoint payload) = Inr v"
      using ok dec by (rule request_succeeded)
  }
  {
    assume h: "(\<forall>call. fst (session_request lib (session c) call) = Response r)
              \<and> (\<forall>github_url. op = SubmitShard github_url
                    \<longrightarrow> (\<exists>k. api_key c = Some k \<and> k \<noteq> []))"
    have req: "result (private_request lib c m e p) = Inr v" for m e p
      by (rule request_succeeded [OF _ ok dec]) (simp add: h)
    have "result (get_shard lib c name) = Inr v" for name
      by (rule get_shard_Inr [OF req])
    then show "result (invoke lib c op) = Inr v"
      using req h by (cases op) (auto simp: operation_defs Let_def)
  }
qed

text \<open>
  A health check answered with 200 and
  \<open>{"status":"ok","timestamp":"2024-01-01T00:00:00Z"}\<close>.
\<close>

theorem success_returns_decoded_body_witness:
  "result (invoke (mock_lib (reply 200 ''OK'' ''https://api.crystalshards.org/health'' body_health)
                     json_table)
            (init (mock_lib (reply 200 ''OK'' ''https://api.crystalshards.org/health'' body_health)
                     json_table) None None)
            HealthCheck)
     = Inr (PyDict [(''status'', PyStr ''ok''), (''timestamp'', PyStr ''2024-01-01T00:00:00Z'')])"
proof -
  define r where "r = \<lparr>status_code = 200, reason = ''OK'',
    resp_url = ''https://api.crystalshards.org/health'', text_body = body_health\<rparr>"
  define L where "L = mock_lib (Response r) json_table"
  define v where "v = PyDict [(''status'', PyStr ''ok''), (''timestamp'', PyStr ''2024-01-01T00:00:00Z'')]"
  have a: "\<forall>call. fst (session_request L (session (init L None None)) call) = Response r"
    by (simp add: L_def mock_lib_def)
  have s: "200 \<le> status_code r" "status_code r < 300"
    by (simp_all add: r_def)
  have t: "text_body r = (\<lambda>x. body_health) v"
    by (simp add: r_def)
  have d: "response_json L ((\<lambda>x. body_health) v) = Inr v"
    by (simp add: L_def v_def fixture_defs)
  have "result (invoke L (init L None None) HealthCheck) = Inr v"
    using success_returns_decoded_body [OF s t d, of "init L None None"
        "''GET''" "''/health''" None HealthCheck] a
    by simp
  then show ?thesis
    by (simp add: L_def r_def v_def reply_def)
qed

subsection \<open>Query strings\<close>




subsection \<open>Configuration\<close>

text \<open>
  C7, as the code has it. A client built without a base URL uses
  \<open>https://api.crystalshards.org\<close>.
\<close>

theorem default_base_url:
  "base_url (init lib None k) = ''https://api.crystalshards.org''"
  by (simp add: init_fields default_url_stripped)

text \<open>Against C7 as the specification words it: the default is not \<open>https://api.example.org\<close>.\<close>

theorem default_base_url_counterexample:
  "base_url (init (mock_lib (RequestException ''Connection refused'') json_table) None None)
     \<noteq> ''https://api.example.org''"
  by (simp add: init_fields default_url_stripped)

text \<open>
  C8. Whatever operation is called on whatever client, the base URL, the API key and the
  session headers afterwards are those before the call. At construction the base URL is
  the argument (or the default) without its trailing slashes, the key is the argument,
  the headers hold the content type and the user agent of the client, and the
  \<open>Authorization\<close> header is \<open>Bearer\<close> followed by the key when a non-empty key was given.
\<close>

theorem configuration_fixed:
  "base_url (client_after (invoke lib c op)) = base_url c
   \<and> api_key (client_after (invoke lib c op)) = api_key c
   \<and> headers (session (client_after (invoke lib c op))) = headers (session c)
   \<and> base_url (init lib b k) =
       rstrip_slash (case b of None \<Rightarrow> ''https://api.crystalshards.org'' | Some u \<Rightarrow> u)
   \<and> (\<forall>s. base_url (init lib b k) \<noteq> s @ ''/'')
   \<and> api_key (init lib b k) = k
   \<and> map_of (headers (session (init lib b k))) ''Content-Type'' = Some ''application/json''
   \<and> map_of (headers (session (init lib b k))) ''User-Agent''
       = Some ''CrystalShardsClient/1.0.0 (Python)''
   \<and> (key \<noteq> [] \<longrightarrow>
        map_of (headers (session (init lib b (Some key)))) ''Authorization''
          = Some (''Bearer '' @ key))"
proof -
  have "map_of (headers (session (init lib b k))) ''Content-Type'' = Some ''application/json''"
    by (simp add: init_headers Let_def update_conv' split: option.splits)
  moreover have "map_of (headers (session (init lib b k))) ''User-Agent''
       = Some ''CrystalShardsClient/1.0.0 (Python)''"
    by (simp add: init_headers Let_def update_conv' split: option.splits)
  moreover have "key \<noteq> [] \<longrightarrow>
        map_of (headers (session (init lib b (Some key)))) ''Authorization''
          = Some (''Bearer '' @ key)"
    by (simp add: init_headers Let_def update_conv')
  ultimately show ?thesis
    by (simp add: invoke_client init_fields rstrip_slash_no_trailing)
qed

text \<open>
  A client for \<open>http://localhost:3000//\<close> with the key \<open>secret\<close>, after a health check.
\<close>

theorem configuration_fixed_witness:
  "base_url (client_after (invoke (mock_lib (reply 200 ''OK'' ''http://localhost:3000/health'' ''null'') json_table)
      (init (mock_lib (reply 200 ''OK'' ''http://localhost:3000/health'' ''null'') json_table)
            (Some ''http://localhost:3000//'') (Some ''secret'')) HealthCheck))
     = ''http://localhost:3000''
   \<and> map_of (headers (session (client_after (invoke (mock_lib (reply 200 ''OK'' ''http://localhost:3000/health'' ''null'') json_table)
      (init (mock_lib (reply 200 ''OK'' ''http://localhost:3000/health'' ''null'') json_table)
            (Some ''http://localhost:3000//'') (Some ''secret'')) HealthCheck)))) ''Authorization''
     = Some ''Bearer secret''"
proof -
  define L where "L = mock_lib (reply 200 ''OK'' ''http://localhost:3000/health'' ''null'') json_table"
  define c where "c = init L (Some ''http://localhost:3000//'') (Some ''secret'')"
  have n: "''secret'' \<noteq> []" by simp
  have r: "rstrip_slash ''http://localhost:3000//'' = ''http://localhost:3000''"
    by (simp add: rstrip_slash_def)
  from configuration_fixed [of L c HealthCheck "Some ''http://localhost:3000//''" "Some ''secret''" "''secret''"] n r
  have "base_url (client_after (invoke L c HealthCheck)) = ''http://localhost:3000''
     \<and> map_of (headers (session (client_after (invoke L c HealthCheck)))) ''Authorization''
         = Some ''Bearer secret''"
    unfolding c_def by simp
  then show ?thesis
    by (simp add: L_def c_def)
qed

end
